theory Spec2Isabelle
  imports Main "HOL-Library.AList"
begin

section \<open>JSON values and the fragment of JavaScript the handlers use\<close>

text \<open>
  \<^verbatim>\<open>server.js\<close> is an Express application. Request bodies, file contents and
  responses are JSON values. A number is an integer; fractional numbers take no part in any
  handler. \<^verbatim>\<open>parseInt\<close> and \<^verbatim>\<open>JSON.parse\<close> read a numeral as the nearest IEEE
  double, which \<open>nearest_double\<close> computes; \<^verbatim>\<open>maxId + 1\<close> is taken exactly, as the
  code computes it while \<^verbatim>\<open>maxId\<close> is below \<open>2^53\<close>. An object is an association list
  from keys to values (\<^verbatim>\<open>JSON.parse\<close> yields objects with distinct keys). A string is
  its UTF-8 text, one \<open>char\<close> a byte. The body a record handler receives is
  \<^verbatim>\<open>req.body\<close>, what \<^verbatim>\<open>express.json()\<close> hands over; the handlers inspect it no
  further, and the model follows them on every JSON value.
\<close>

datatype json =
    JNull
  | JBool bool
  | JNum int
  | JStr string
  | JArr "json list"
  | JObj "(string \<times> json) list"

text \<open>A JavaScript value read from a property: \<open>None\<close> is \<^verbatim>\<open>undefined\<close>.\<close>

type_synonym jsval = "json option"

text \<open>
  What interrupts the \<^verbatim>\<open>try\<close> block of a handler: a \<^verbatim>\<open>TypeError\<close> raised by the
  JavaScript itself, a failed read of a file (\<open>IOError\<close>), and \<open>Uncovered\<close>, which
  marks the coercions of JavaScript this development does not embed (a relational comparison
  or an addition whose operand is a string, an array or an object). \<open>Uncovered\<close> is not a
  behaviour of the program: a theorem about a handler shows that it does not arise.
\<close>

datatype fault = TypeError | IOError | Uncovered

fun bindF :: "fault + 'a \<Rightarrow> ('a \<Rightarrow> fault + 'b) \<Rightarrow> fault + 'b" where
  "bindF (Inl e) f = Inl e"
| "bindF (Inr x) f = f x"

text \<open>
  \<^verbatim>\<open>item.id\<close> and \<^verbatim>\<open>item.crop_code\<close>: reading a property of \<^verbatim>\<open>null\<close> throws; an
  object yields its own property; an array, a string, a number or a boolean has no property
  of either name, so the read yields \<^verbatim>\<open>undefined\<close>.
\<close>

fun get_prop :: "json \<Rightarrow> string \<Rightarrow> fault + jsval" where
  "get_prop JNull k = Inl TypeError"
| "get_prop (JObj kvs) k = Inr (map_of kvs k)"
| "get_prop (JBool b) k = Inr None"
| "get_prop (JNum n) k = Inr None"
| "get_prop (JStr s) k = Inr None"
| "get_prop (JArr xs) k = Inr None"

text \<open>
  \<^verbatim>\<open>newRecord.id = v\<close>, as the value is serialised afterwards (\<^verbatim>\<open>res.json\<close>,
  \<^verbatim>\<open>fs.writeJson\<close>): on an object the property is replaced in place or appended; on
  \<^verbatim>\<open>null\<close> the assignment throws; on an array it creates a non-index property, which
  \<^verbatim>\<open>JSON.stringify\<close> leaves out; on a primitive it is ignored (the file is not in strict
  mode).
\<close>

fun set_prop :: "json \<Rightarrow> string \<Rightarrow> json \<Rightarrow> fault + json" where
  "set_prop JNull k v = Inl TypeError"
| "set_prop (JObj kvs) k v = Inr (JObj (AList.update k v kvs))"
| "set_prop (JBool b) k v = Inr (JBool b)"
| "set_prop (JNum n) k v = Inr (JNum n)"
| "set_prop (JStr s) k v = Inr (JStr s)"
| "set_prop (JArr xs) k v = Inr (JArr xs)"

text \<open>\<^verbatim>\<open>ToNumber\<close> on the values that need no string parsing; \<open>Inr None\<close> is \<^verbatim>\<open>NaN\<close>.\<close>

fun ToNumber :: "jsval \<Rightarrow> fault + int option" where
  "ToNumber None = Inr None"
| "ToNumber (Some JNull) = Inr (Some 0)"
| "ToNumber (Some (JBool b)) = Inr (Some (if b then 1 else 0))"
| "ToNumber (Some (JNum n)) = Inr (Some n)"
| "ToNumber (Some (JStr s)) = Inl Uncovered"
| "ToNumber (Some (JArr xs)) = Inl Uncovered"
| "ToNumber (Some (JObj kvs)) = Inl Uncovered"

text \<open>\<^verbatim>\<open>a > b\<close> where neither operand is a string: numeric, and false when either is \<^verbatim>\<open>NaN\<close>.\<close>

definition js_gt :: "jsval \<Rightarrow> jsval \<Rightarrow> fault + bool" where
  "js_gt a b =
     bindF (ToNumber a) (\<lambda>x. bindF (ToNumber b) (\<lambda>y.
       case (x, y) of
         (Some m, Some n) \<Rightarrow> Inr (n < m)
       | _ \<Rightarrow> Inr False))"

text \<open>\<^verbatim>\<open>maxId + 1\<close> where \<^verbatim>\<open>maxId\<close> converts to a number.\<close>

definition js_add_one :: "jsval \<Rightarrow> fault + json" where
  "js_add_one a =
     bindF (ToNumber a) (\<lambda>x.
       case x of
         Some m \<Rightarrow> Inr (JNum (m + 1))
       | None \<Rightarrow> Inl Uncovered)"

subsection \<open>Numbers as doubles\<close>

text \<open>
  The value of a numeral that is an integer: a finite double or an infinity. With an option
  around it, \<open>None\<close> is \<^verbatim>\<open>NaN\<close>.
\<close>

datatype number = Finite int | PlusInfinity | MinusInfinity

text \<open>
  The distance between neighbouring doubles at the magnitude \<open>a\<close>: 1 below \<open>2^53\<close>, and
  doubled with each doubling of \<open>a\<close> from there (a double has 53 significant bits).
\<close>

function ulp :: "int \<Rightarrow> int" where
  "ulp a = (if a < 2 ^ 53 then 1 else 2 * ulp (a div 2))"
  by pat_completeness auto
termination
  by (relation "measure nat") auto

declare ulp.simps [simp del]

text \<open>
  The multiple of \<open>ulp a\<close> nearest to \<open>a \<ge> 0\<close>; of two equally near the one whose
  quotient is even (round to nearest, ties to even).
\<close>

definition nearest :: "int \<Rightarrow> int" where
  "nearest a =
     (let u = ulp a; q = a div u; r = a mod u
      in if 2 * r < u \<or> (2 * r = u \<and> even q) then q * u else (q + 1) * u)"

text \<open>
  The double an integer numeral is read as. The largest finite double is
  \<open>2^1024 - 2^971\<close>; a magnitude that rounds to \<open>2^1024\<close> is read as an infinity.
\<close>

definition nearest_double :: "int \<Rightarrow> number" where
  "nearest_double n =
     (let m = nearest \<bar>n\<bar>
      in if 2 ^ 1024 \<le> m then (if n < 0 then MinusInfinity else PlusInfinity)
         else Finite (if n < 0 then - m else m))"

text \<open>
  \<^verbatim>\<open>item.id === id\<close> with \<^verbatim>\<open>id = parseInt(...)\<close>: \<^verbatim>\<open>NaN\<close> equals nothing, and no
  number a record holds is an infinity.
\<close>

fun strict_eq_num :: "jsval \<Rightarrow> number option \<Rightarrow> bool" where
  "strict_eq_num (Some (JNum m)) (Some (Finite n)) = (m = n)"
| "strict_eq_num v i = False"

text \<open>
  How a number is serialised: \<^verbatim>\<open>JSON.stringify\<close> writes \<^verbatim>\<open>NaN\<close> and the infinities as
  \<^verbatim>\<open>null\<close>.
\<close>

fun num_json :: "number option \<Rightarrow> json" where
  "num_json (Some (Finite n)) = JNum n"
| "num_json i = JNull"

text \<open>A method of \<^verbatim>\<open>Array.prototype\<close> called on a value that is not an array throws.\<close>

fun as_array :: "json \<Rightarrow> fault + json list" where
  "as_array (JArr xs) = Inr xs"
| "as_array j = Inl TypeError"

subsection \<open>\<^verbatim>\<open>parseInt\<close>\<close>

text \<open>
  The white space \<^verbatim>\<open>parseInt\<close> skips, in UTF-8: the characters U+0009 to U+000D and
  U+0020 (one byte); U+00A0 (two bytes); U+1680, U+2000 to U+200A, U+2028, U+2029, U+202F,
  U+205F, U+3000 and U+FEFF (three bytes).
\<close>

definition whiteSpace1 :: "char \<Rightarrow> bool" where
  "whiteSpace1 a = (a \<in> set [CHR 0x09, CHR 0x0A, CHR 0x0B, CHR 0x0C, CHR 0x0D, CHR 0x20])"

definition whiteSpace2 :: "char \<Rightarrow> char \<Rightarrow> bool" where
  "whiteSpace2 a b = (a = CHR 0xC2 \<and> b = CHR 0xA0)"

definition whiteSpace3 :: "char \<Rightarrow> char \<Rightarrow> char \<Rightarrow> bool" where
  "whiteSpace3 a b c =
     ((a = CHR 0xE1 \<and> b = CHR 0x9A \<and> c = CHR 0x80)
      \<or> (a = CHR 0xE2 \<and> b = CHR 0x80
            \<and> ((0x80 :: nat) \<le> of_char c \<and> (of_char c :: nat) \<le> 0x8A
                \<or> c = CHR 0xA8 \<or> c = CHR 0xA9 \<or> c = CHR 0xAF))
      \<or> (a = CHR 0xE2 \<and> b = CHR 0x81 \<and> c = CHR 0x9F)
      \<or> (a = CHR 0xE3 \<and> b = CHR 0x80 \<and> c = CHR 0x80)
      \<or> (a = CHR 0xEF \<and> b = CHR 0xBB \<and> c = CHR 0xBF))"

fun trimStart :: "string \<Rightarrow> string" where
  "trimStart [] = []"
| "trimStart (a # s) =
     (if whiteSpace1 a then trimStart s
      else case s of
        [] \<Rightarrow> [a]
      | b # t \<Rightarrow>
          if whiteSpace2 a b then trimStart t
          else case t of
            [] \<Rightarrow> [a, b]
          | c # u \<Rightarrow> if whiteSpace3 a b c then trimStart u else a # b # c # u)"

definition digitValue :: "char \<Rightarrow> nat option" where
  "digitValue c =
     (let n = (of_char c :: nat) in
      if 48 \<le> n \<and> n \<le> 57 then Some (n - 48)
      else if 97 \<le> n \<and> n \<le> 122 then Some (n - 87)
      else if 65 \<le> n \<and> n \<le> 90 then Some (n - 55)
      else None)"

definition isRadixDigit :: "nat \<Rightarrow> char \<Rightarrow> bool" where
  "isRadixDigit R c = (case digitValue c of Some d \<Rightarrow> d < R | None \<Rightarrow> False)"

definition digitsValue :: "nat \<Rightarrow> string \<Rightarrow> int" where
  "digitsValue R ds = foldl (\<lambda>acc c. acc * int R + int (the (digitValue c))) 0 ds"

text \<open>
  \<^verbatim>\<open>parseInt(s)\<close> with no radix: leading white space is skipped, a sign is read, the
  prefix \<^verbatim>\<open>0x\<close> or \<^verbatim>\<open>0X\<close> selects radix 16, then the longest run of digits is read,
  and the result is the double nearest to the signed integer they denote; no digit gives
  \<^verbatim>\<open>NaN\<close> (\<open>None\<close>).
\<close>

definition parseInt :: "string \<Rightarrow> number option" where
  "parseInt s =
     (let s1 = trimStart s;
          neg = (s1 \<noteq> [] \<and> hd s1 = CHR ''-'');
          s2 = (if s1 \<noteq> [] \<and> (hd s1 = CHR ''+'' \<or> hd s1 = CHR ''-'') then tl s1 else s1);
          hex = (case s2 of a # b # r \<Rightarrow> a = CHR ''0'' \<and> (b = CHR ''x'' \<or> b = CHR ''X'') | _ \<Rightarrow> False);
          R = (if hex then 16 else 10);
          s3 = (if hex then drop 2 s2 else s2);
          Z = takeWhile (isRadixDigit R) s3
      in if Z = [] then None
         else Some (nearest_double ((if neg then - 1 else 1) * digitsValue R Z)))"

section \<open>The file store\<close>

text \<open>
  A path is its list of segments. A file is absent, holds text that is not JSON, or holds a
  JSON document, kept as the value \<^verbatim>\<open>JSON.parse\<close> reads from it: \<^verbatim>\<open>fs.readJson\<close>
  returns that value, and \<^verbatim>\<open>fs.writeJson\<close> leaves the file holding the value it is given
  (\<^verbatim>\<open>JSON.parse\<close> inverts \<^verbatim>\<open>JSON.stringify\<close> on values that came from JSON). The disk
  itself is taken to be reliable: a read fails only on an absent or unparsable file, and every
  write targets a directory that exists (\<^verbatim>\<open>/tmp\<close>, \<^verbatim>\<open>__dirname\<close>, or the directory
  \<^verbatim>\<open>mkdirp\<close> has just made), so directories are not modelled.
\<close>

type_synonym path = "string list"

datatype fcontent = Unparsable | Json json

type_synonym filesys = "path \<Rightarrow> fcontent option"

definition pathExists :: "filesys \<Rightarrow> path \<Rightarrow> bool" where
  "pathExists fs p = (fs p \<noteq> None)"

definition readJson :: "filesys \<Rightarrow> path \<Rightarrow> fault + json" where
  "readJson fs p = (case fs p of Some (Json j) \<Rightarrow> Inr j | _ \<Rightarrow> Inl IOError)"

definition writeJson :: "filesys \<Rightarrow> path \<Rightarrow> json \<Rightarrow> filesys" where
  "writeJson fs p j = fs(p \<mapsto> Json j)"

text \<open>
  The process environment: \<open>isVercel\<close> is \<^verbatim>\<open>process.env.VERCEL === '1'\<close>, \<open>dirname\<close>
  is \<^verbatim>\<open>__dirname\<close>.
\<close>

record env =
  isVercel :: bool
  dirname :: path

definition baseDir :: "env \<Rightarrow> path" where
  "baseDir e = (if isVercel e then [''tmp''] else dirname e)"

definition dataFilePath :: "env \<Rightarrow> path" where
  "dataFilePath e = baseDir e @ [''gold.json'']"

definition animalFilePath :: "env \<Rightarrow> path" where
  "animalFilePath e = baseDir e @ [''animal.json'']"

definition cropsFilePath :: "env \<Rightarrow> path" where
  "cropsFilePath e = baseDir e @ [''crops.json'']"

definition kccdataFilePath :: "env \<Rightarrow> path" where
  "kccdataFilePath e = baseDir e @ [''kccdata.json'']"

definition kccahdataFilePath :: "env \<Rightarrow> path" where
  "kccahdataFilePath e = baseDir e @ [''kccahdata.json'']"

subsection \<open>\<^verbatim>\<open>initializeFiles\<close>\<close>

text \<open>The loop of both branches: a file that does not exist is created holding \<^verbatim>\<open>[]\<close>.\<close>

fun createMissing :: "path list \<Rightarrow> filesys \<Rightarrow> filesys" where
  "createMissing [] fs = fs"
| "createMissing (p # ps) fs =
     createMissing ps (if \<not> pathExists fs p then writeJson fs p (JArr []) else fs)"

definition vercelFiles :: "env \<Rightarrow> path list" where
  "vercelFiles e =
     [dataFilePath e, animalFilePath e, cropsFilePath e, kccdataFilePath e, kccahdataFilePath e]"

definition localFiles :: "env \<Rightarrow> path list" where
  "localFiles e =
     [dirname e @ [''components'', ''data'', ''gold.json''],
      dirname e @ [''components'', ''data'', ''animal.json''],
      dirname e @ [''components'', ''data'', ''crops.json''],
      dirname e @ [''components'', ''data'', ''kccdata.json''],
      dirname e @ [''components'', ''data'', ''kccahdata.json'']]"

definition initializeFiles :: "env \<Rightarrow> filesys \<Rightarrow> filesys" where
  "initializeFiles e fs =
     (if isVercel e then createMissing (vercelFiles e) fs
      else createMissing (localFiles e) fs)"

section \<open>Responses and the handlers' \<^verbatim>\<open>try\<close>/\<^verbatim>\<open>catch\<close>\<close>

record response =
  status :: nat
  body :: json

definition error_json :: "string \<Rightarrow> json" where
  "error_json msg = JObj [(''error'', JStr msg)]"

definition message_json :: "string \<Rightarrow> json" where
  "message_json msg = JObj [(''message'', JStr msg)]"

text \<open>
  What a handler does: it responds and leaves the files in a state, or it leaves the embedded
  fragment of JavaScript (\<open>Unmodelled\<close>).
\<close>

datatype outcome = Responds response filesys | Unmodelled

fun response_of :: "outcome \<Rightarrow> response option" where
  "response_of (Responds r fs) = Some r"
| "response_of Unmodelled = None"

fun files_of :: "outcome \<Rightarrow> filesys option" where
  "files_of (Responds r fs) = Some fs"
| "files_of Unmodelled = None"

text \<open>
  \<^verbatim>\<open>try { ... } catch (err) { res.status(500).json({ error: msg }) }\<close>: every handler
  writes last, so a caught exception leaves the files as they were.
\<close>

fun catch500 :: "string \<Rightarrow> filesys \<Rightarrow> fault + response \<times> filesys \<Rightarrow> outcome" where
  "catch500 msg fs (Inr (r, fs')) = Responds r fs'"
| "catch500 msg fs (Inl Uncovered) = Unmodelled"
| "catch500 msg fs (Inl e) = Responds \<lparr>status = 500, body = error_json msg\<rparr> fs"

section \<open>The JSON body parser and the fallback error handler\<close>










section \<open>The loan datasets: \<^verbatim>\<open>/api/kccdata\<close> and \<^verbatim>\<open>/api/kccahdata\<close>\<close>

datatype dataset = Kccdata | Kccahdata

fun datasetPath :: "env \<Rightarrow> dataset \<Rightarrow> path" where
  "datasetPath e Kccdata = kccdataFilePath e"
| "datasetPath e Kccahdata = kccahdataFilePath e"

definition get_dataset :: "env \<Rightarrow> dataset \<Rightarrow> filesys \<Rightarrow> outcome" where
  "get_dataset e d fs =
     catch500 ''Error reading data'' fs
       (bindF (readJson fs (datasetPath e d)) (\<lambda>data.
          Inr (\<lparr>status = 200, body = data\<rparr>, fs)))"


section \<open>The record collections: gold, animal, crops\<close>

datatype collection = Gold | Animal | Crops

fun filePath :: "env \<Rightarrow> collection \<Rightarrow> path" where
  "filePath e Gold = dataFilePath e"
| "filePath e Animal = animalFilePath e"
| "filePath e Crops = cropsFilePath e"

text \<open>The identifying field.\<close>

fun idField :: "collection \<Rightarrow> string" where
  "idField Gold = ''id''"
| "idField Animal = ''id''"
| "idField Crops = ''crop_code''"

fun readError :: "collection \<Rightarrow> string" where
  "readError Gold = ''Failed to read gold data''"
| "readError Animal = ''Failed to read animal data''"
| "readError Crops = ''Failed to read crop data''"

fun saveError :: "collection \<Rightarrow> string" where
  "saveError Gold = ''Failed to save gold data''"
| "saveError Animal = ''Failed to save animal data''"
| "saveError Crops = ''Failed to save crop data''"

fun updateError :: "collection \<Rightarrow> string" where
  "updateError Gold = ''Failed to update record''"
| "updateError Animal = ''Failed to update animal record''"
| "updateError Crops = ''Failed to update crop record''"

fun deleteError :: "collection \<Rightarrow> string" where
  "deleteError Gold = ''Failed to delete record''"
| "deleteError Animal = ''Failed to delete animal record''"
| "deleteError Crops = ''Failed to delete crop record''"

fun notFound :: "collection \<Rightarrow> string" where
  "notFound Gold = ''Record not found''"
| "notFound Animal = ''Animal record not found''"
| "notFound Crops = ''Crop record not found''"

fun deleted :: "collection \<Rightarrow> string" where
  "deleted Gold = ''Record deleted successfully''"
| "deleted Animal = ''Animal record deleted successfully''"
| "deleted Crops = ''Crop record deleted successfully''"

text \<open>\<^verbatim>\<open>GET /api/gold\<close>, \<^verbatim>\<open>/api/animal\<close>, \<^verbatim>\<open>/api/crops\<close>.\<close>

definition get_records :: "env \<Rightarrow> collection \<Rightarrow> filesys \<Rightarrow> outcome" where
  "get_records e c fs =
     catch500 (readError c) fs
       (bindF (readJson fs (filePath e c)) (\<lambda>data.
          Inr (\<lparr>status = 200, body = data\<rparr>, fs)))"

text \<open>
  \<^verbatim>\<open>data.reduce((max, item) => (item.id > max ? item.id : max), 0)\<close>, from the left,
  with the accumulator as third argument.
\<close>

fun reduce_maxId :: "string \<Rightarrow> json list \<Rightarrow> jsval \<Rightarrow> fault + jsval" where
  "reduce_maxId k [] mx = Inr mx"
| "reduce_maxId k (item # items) mx =
     bindF (get_prop item k) (\<lambda>v.
     bindF (js_gt v mx) (\<lambda>b.
       reduce_maxId k items (if b then v else mx)))"

text \<open>\<^verbatim>\<open>POST /api/gold\<close>, \<^verbatim>\<open>/api/animal\<close>, \<^verbatim>\<open>/api/crops\<close>.\<close>

definition post_record :: "env \<Rightarrow> collection \<Rightarrow> json \<Rightarrow> filesys \<Rightarrow> outcome" where
  "post_record e c reqBody fs =
     catch500 (saveError c) fs
       (let newRecord = reqBody in
        bindF (if pathExists fs (filePath e c) then readJson fs (filePath e c)
               else Inr (JArr [])) (\<lambda>data.
        bindF (as_array data) (\<lambda>items.
        bindF (reduce_maxId (idField c) items (Some (JNum 0))) (\<lambda>maxId.
        bindF (js_add_one maxId) (\<lambda>newId.
        bindF (set_prop newRecord (idField c) newId) (\<lambda>newRecord'.
          Inr (\<lparr>status = 201, body = newRecord'\<rparr>,
               writeJson fs (filePath e c) (JArr (items @ [newRecord'])))))))))"

text \<open>\<^verbatim>\<open>data.findIndex(item => item.id === id)\<close>: \<open>None\<close> is \<^verbatim>\<open>-1\<close>.\<close>

fun findIndex :: "string \<Rightarrow> number option \<Rightarrow> json list \<Rightarrow> fault + nat option" where
  "findIndex k i [] = Inr None"
| "findIndex k i (item # items) =
     bindF (get_prop item k) (\<lambda>v.
       if strict_eq_num v i then Inr (Some 0)
       else bindF (findIndex k i items) (\<lambda>r. Inr (map_option Suc r)))"

text \<open>\<^verbatim>\<open>PUT /api/gold/:id\<close>, \<^verbatim>\<open>/api/animal/:id\<close>, \<^verbatim>\<open>/api/crops/:id\<close>.\<close>

definition put_record :: "env \<Rightarrow> collection \<Rightarrow> string \<Rightarrow> json \<Rightarrow> filesys \<Rightarrow> outcome" where
  "put_record e c idParam reqBody fs =
     catch500 (updateError c) fs
       (let key = parseInt idParam; updatedRecord = reqBody in
        bindF (readJson fs (filePath e c)) (\<lambda>data.
        bindF (as_array data) (\<lambda>items.
        bindF (findIndex (idField c) key items) (\<lambda>index.
          case index of
            None \<Rightarrow> Inr (\<lparr>status = 404, body = error_json (notFound c)\<rparr>, fs)
          | Some at \<Rightarrow>
              bindF (set_prop updatedRecord (idField c) (num_json key)) (\<lambda>updatedRecord'.
                Inr (\<lparr>status = 200, body = updatedRecord'\<rparr>,
                     writeJson fs (filePath e c) (JArr (items[at := updatedRecord']))))))))"

text \<open>
  \<^verbatim>\<open>DELETE /api/gold/:id\<close>, \<^verbatim>\<open>/api/animal/:id\<close>, \<^verbatim>\<open>/api/crops/:id\<close>;
  \<^verbatim>\<open>data.splice(index, 1)\<close> removes the element at \<^verbatim>\<open>index\<close>.
\<close>

definition delete_record :: "env \<Rightarrow> collection \<Rightarrow> string \<Rightarrow> filesys \<Rightarrow> outcome" where
  "delete_record e c idParam fs =
     catch500 (deleteError c) fs
       (let key = parseInt idParam in
        bindF (readJson fs (filePath e c)) (\<lambda>data.
        bindF (as_array data) (\<lambda>items.
        bindF (findIndex (idField c) key items) (\<lambda>index.
          case index of
            None \<Rightarrow> Inr (\<lparr>status = 404, body = error_json (notFound c)\<rparr>, fs)
          | Some at \<Rightarrow>
              Inr (\<lparr>status = 200, body = message_json (deleted c)\<rparr>,
                   writeJson fs (filePath e c) (JArr (take at items @ drop (Suc at) items)))))))"

subsection \<open>Sequences of operations on one collection\<close>

datatype operation = Create json | Replace string json | Delete string

fun step :: "env \<Rightarrow> collection \<Rightarrow> operation \<Rightarrow> filesys \<Rightarrow> outcome" where
  "step e c (Create reqBody) fs = post_record e c reqBody fs"
| "step e c (Replace idParam reqBody) fs = put_record e c idParam reqBody fs"
| "step e c (Delete idParam) fs = delete_record e c idParam fs"

text \<open>
  Requests handled one after the other, each to completion: the response of each and the
  files after it. \<open>None\<close> when a step is \<open>Unmodelled\<close>.
\<close>

fun run :: "env \<Rightarrow> collection \<Rightarrow> operation list \<Rightarrow> filesys \<Rightarrow> (response \<times> filesys) list option" where
  "run e c [] fs = Some []"
| "run e c (x # xs) fs =
     (case step e c x fs of
        Unmodelled \<Rightarrow> None
      | Responds r fs' \<Rightarrow> map_option ((#) (r, fs')) (run e c xs fs'))"

text \<open>The identifying-field values of the records of a list, in order.\<close>

fun ids_of :: "string \<Rightarrow> json list \<Rightarrow> json list" where
  "ids_of k [] = []"
| "ids_of k (item # items) =
     (case get_prop item k of
        Inr (Some v) \<Rightarrow> v # ids_of k items
      | _ \<Rightarrow> ids_of k items)"

text \<open>The records a collection's file holds; none when it is absent or holds no array.\<close>

definition records_in :: "env \<Rightarrow> collection \<Rightarrow> filesys \<Rightarrow> json list" where
  "records_in e c fs =
     (case fs (filePath e c) of
        Some (Json (JArr items)) \<Rightarrow> items
      | _ \<Rightarrow> [])"

subsection \<open>Notions for stating the properties\<close>

text \<open>The numbers among the identifying-field values of a list of records.\<close>

fun id_numbers :: "string \<Rightarrow> json list \<Rightarrow> int list" where
  "id_numbers k [] = []"
| "id_numbers k (item # items) =
     (case get_prop item k of
        Inr (Some (JNum n)) \<Rightarrow> n # id_numbers k items
      | _ \<Rightarrow> id_numbers k items)"

text \<open>One more than the largest of them, the largest being taken as 0 when there is none.\<close>

definition next_id :: "string \<Rightarrow> json list \<Rightarrow> int" where
  "next_id k items = 1 + Max (insert 0 (set (id_numbers k items)))"

text \<open>
  No record is \<^verbatim>\<open>null\<close>, and the identifying field of each is absent or a number. Every
  list of records the handlers build from an empty collection is of this kind.
\<close>

definition numbered :: "string \<Rightarrow> json list \<Rightarrow> bool" where
  "numbered k items =
     (\<forall>item \<in> set items. item \<noteq> JNull \<and>
        (case get_prop item k of Inr (Some v) \<Rightarrow> (case v of JNum n \<Rightarrow> True | _ \<Rightarrow> False) | _ \<Rightarrow> True))"

text \<open>
  The records the create handler reads: the array in the collection's file, and none when the
  file does not exist.
\<close>

definition collection_is :: "env \<Rightarrow> collection \<Rightarrow> filesys \<Rightarrow> json list \<Rightarrow> bool" where
  "collection_is e c fs items =
     (fs (filePath e c) = Some (Json (JArr items)) \<or> (items = [] \<and> fs (filePath e c) = None))"

text \<open>The invariant of a collection: its records are of that kind and their identifiers differ.\<close>

definition sound :: "env \<Rightarrow> collection \<Rightarrow> filesys \<Rightarrow> bool" where
  "sound e c fs =
     (case fs (filePath e c) of
        None \<Rightarrow> True
      | Some (Json (JArr items)) \<Rightarrow>
          numbered (idField c) items \<and> distinct (ids_of (idField c) items)
      | _ \<Rightarrow> False)"

section \<open>The user profiles in the external store\<close>

text \<open>
  The table \<^verbatim>\<open>user_details\<close> lives in a Postgres database reached through the Supabase
  client, which is no part of the repository. The table is a list of rows, and the query
  primitives the handlers call have their documented behaviour: \<^verbatim>\<open>eq\<close> keeps the rows
  whose column equals the value; \<^verbatim>\<open>ilike\<close> with a pattern free of wildcards keeps the rows
  whose column is that text up to letter case; \<^verbatim>\<open>single\<close> fails unless exactly one row is
  selected; \<^verbatim>\<open>maybeSingle\<close> yields \<^verbatim>\<open>null\<close> for no row and fails for more than one;
  \<^verbatim>\<open>insert\<close> adds a row; \<^verbatim>\<open>update\<close> changes the selected rows in the columns sent
  (\<^verbatim>\<open>undefined\<close> is not sent). The store answers every call, and returns every selected
  row. The Tamil column names are transliterated (\<open>u_en\<close> is the identifier column,
  \<open>peyar\<close> the name, \<open>aadhaar_en\<close> the document number), the Tamil messages are given
  in English without their pictographs, and the key the store assigns to a row and the
  error details some responses echo from the store are left out. A column holds a JSON
  value, \<open>JNull\<close> for SQL \<^verbatim>\<open>NULL\<close>; the identifier is the text the store compares.
\<close>

record row =
  u_en :: string
  peyar :: json
  aadhaar_en :: json
  userjson :: json
  loantype :: json

definition row_json :: "row \<Rightarrow> json" where
  "row_json r =
     JObj [(''u_en'', JStr (u_en r)), (''peyar'', peyar r), (''aadhaar_en'', aadhaar_en r),
           (''userjson'', userjson r), (''loantype'', loantype r)]"

text \<open>The \<^verbatim>\<open>{ data, error }\<close> of a query.\<close>

datatype 'a reply = Data 'a | Error

definition eq_u_en :: "string \<Rightarrow> row list \<Rightarrow> row list" where
  "eq_u_en v rows = filter (\<lambda>r. u_en r = v) rows"

fun single :: "row list \<Rightarrow> row reply" where
  "single [r] = Data r"
| "single rs = Error"

fun maybeSingle :: "row list \<Rightarrow> row option reply" where
  "maybeSingle [] = Data None"
| "maybeSingle [r] = Data (Some r)"
| "maybeSingle rs = Error"




text \<open>What JavaScript takes for true in a condition.\<close>

fun truthy :: "jsval \<Rightarrow> bool" where
  "truthy None = False"
| "truthy (Some JNull) = False"
| "truthy (Some (JBool b)) = b"
| "truthy (Some (JNum n)) = (n \<noteq> 0)"
| "truthy (Some (JStr s)) = (s \<noteq> [])"
| "truthy (Some (JArr xs)) = True"
| "truthy (Some (JObj kvs)) = True"

subsection \<open>\<^verbatim>\<open>GET /get-all-users\<close> and \<^verbatim>\<open>GET /get-all-usersAH\<close>\<close>







subsection \<open>\<^verbatim>\<open>GET /api/user-data/:uNumber\<close> and \<^verbatim>\<open>GET /api/user-data-kccah/:uNumber\<close>\<close>

definition fetch_profile :: "string \<Rightarrow> string \<Rightarrow> row list \<Rightarrow> response" where
  "fetch_profile tag uNumber rows =
     (case maybeSingle (eq_u_en uNumber rows) of
        Error \<Rightarrow> \<lparr>status = 500, body = message_json ''storage error''\<rparr>
      | Data None \<Rightarrow> \<lparr>status = 404, body = message_json ''user not found''\<rparr>
      | Data (Some data) \<Rightarrow>
          if truthy (Some (loantype data)) \<and> loantype data \<noteq> JStr tag
          then \<lparr>status = 400, body = message_json (''this u_en NO IN '' @ tag @ '' '')\<rparr>
          else \<lparr>status = 200, body = row_json data\<rparr>)"

definition user_data :: "string \<Rightarrow> row list \<Rightarrow> response" where
  "user_data uNumber rows = fetch_profile ''KCC'' uNumber rows"

definition user_data_kccah :: "string \<Rightarrow> row list \<Rightarrow> response" where
  "user_data_kccah uNumber rows = fetch_profile ''KCCAH'' uNumber rows"

subsection \<open>\<^verbatim>\<open>POST /submit-user-data\<close>\<close>

text \<open>The fields the handler takes out of the request body; \<open>None\<close> is a field not sent.\<close>

record submission =
  userId :: string
  userName :: jsval
  aadhaar :: jsval
  sent_userjson :: jsval
  sent_loantype :: jsval
  isUpdate :: jsval

text \<open>A column of an updated row: a value that was sent replaces the old one.\<close>

fun sent_or :: "json \<Rightarrow> jsval \<Rightarrow> json" where
  "sent_or old None = old"
| "sent_or old (Some v) = v"

definition update_row :: "submission \<Rightarrow> row \<Rightarrow> row" where
  "update_row s r =
     r\<lparr>peyar := sent_or (peyar r) (userName s),
       aadhaar_en := sent_or (aadhaar_en r) (aadhaar s),
       userjson := sent_or (userjson r) (sent_userjson s),
       loantype := sent_or (loantype r) (sent_loantype s)\<rparr>"

definition update_eq_u_en :: "submission \<Rightarrow> row list \<Rightarrow> row list" where
  "update_eq_u_en s rows = map (\<lambda>r. if u_en r = userId s then update_row s r else r) rows"

definition new_row :: "submission \<Rightarrow> row" where
  "new_row s =
     \<lparr>u_en = userId s,
      peyar = sent_or JNull (userName s),
      aadhaar_en = sent_or JNull (aadhaar s),
      userjson = sent_or JNull (sent_userjson s),
      loantype = sent_or JNull (sent_loantype s)\<rparr>"

definition insert_row :: "submission \<Rightarrow> row list \<Rightarrow> row list" where
  "insert_row s rows = rows @ [new_row s]"

definition submit_user_data :: "submission \<Rightarrow> row list \<Rightarrow> response \<times> row list" where
  "submit_user_data s rows =
     (if truthy (isUpdate s) then
        (case single (eq_u_en (userId s) rows) of
           Error \<Rightarrow>
             (\<lparr>status = 404, body = message_json ''User not found for update''\<rparr>, rows)
         | Data existingUser \<Rightarrow>
             (\<lparr>status = 200,
               body = JObj [(''message'', JStr ''Data updated successfully''), (''data'', JNull)]\<rparr>,
              update_eq_u_en s rows))
      else
        (\<lparr>status = 200,
          body = JObj [(''message'', JStr ''Data inserted successfully''), (''data'', JNull)]\<rparr>,
         insert_row s rows))"

section \<open>Properties\<close>

text \<open>The equations that evaluate \<^verbatim>\<open>parseInt\<close> on a given text.\<close>

lemmas parseInt_eval =
  parseInt_def whiteSpace1_def whiteSpace2_def whiteSpace3_def isRadixDigit_def digitValue_def
  digitsValue_def nearest_double_def nearest_def ulp.simps

subsection \<open>Start-up and listing\<close>

lemma createMissing_other: "p \<notin> set ps \<Longrightarrow> createMissing ps fs p = fs p"
  by (induction ps arbitrary: fs) (auto simp: writeJson_def)

lemma createMissing_present: "fs p \<noteq> None \<Longrightarrow> createMissing ps fs p = fs p"
  by (induction ps arbitrary: fs) (auto simp: writeJson_def pathExists_def)

lemma createMissing_absent:
  "p \<in> set ps \<Longrightarrow> fs p = None \<Longrightarrow> createMissing ps fs p = Some (Json (JArr []))"
proof (induction ps arbitrary: fs)
  case Nil
  then show ?case by simp
next
  case (Cons q qs)
  show ?case
  proof (cases "q = p")
    case True
    then show ?thesis
      using Cons.prems by (simp add: pathExists_def writeJson_def createMissing_present)
  next
    case False
    then have "p \<in> set qs" using Cons.prems by simp
    moreover have "(if \<not> pathExists fs q then writeJson fs q (JArr []) else fs) p = None"
      using False Cons.prems by (simp add: writeJson_def)
    ultimately show ?thesis using Cons.IH by simp
  qed
qed

lemma filePath_not_local: "isVercel e = False \<Longrightarrow> filePath e c \<notin> set (localFiles e)"
  by (cases c)
    (simp_all add: localFiles_def dataFilePath_def animalFilePath_def cropsFilePath_def baseDir_def)

lemma datasetPath_not_local: "isVercel e = False \<Longrightarrow> datasetPath e d \<notin> set (localFiles e)"
  by (cases d) (simp_all add: localFiles_def kccdataFilePath_def kccahdataFilePath_def baseDir_def)

lemma filePath_vercel: "isVercel e \<Longrightarrow> filePath e c \<in> set (vercelFiles e)"
  by (cases c) (simp_all add: vercelFiles_def)

lemma datasetPath_vercel: "isVercel e \<Longrightarrow> datasetPath e d \<in> set (vercelFiles e)"
  by (cases d) (simp_all add: vercelFiles_def)

text \<open>
  On Vercel the files start-up creates are the files the handlers read: a collection whose
  file was absent is listed as \<^verbatim>\<open>[]\<close> with status 200.
\<close>

lemma vercel_startup_then_list:
  assumes "isVercel e"
  shows "fs (filePath e c) = None \<Longrightarrow>
           get_records e c (initializeFiles e fs)
             = Responds \<lparr>status = 200, body = JArr []\<rparr> (initializeFiles e fs)"
    and "fs (datasetPath e d) = None \<Longrightarrow>
           get_dataset e d (initializeFiles e fs)
             = Responds \<lparr>status = 200, body = JArr []\<rparr> (initializeFiles e fs)"
  using assms
  by (simp_all add: get_records_def get_dataset_def readJson_def initializeFiles_def
      createMissing_absent filePath_vercel datasetPath_vercel)

text \<open>
  C2 (listing a newly initialised collection returns an empty array with status 200, never an
  error, because start-up creates the collection file holding \<^verbatim>\<open>[]\<close> if absent). Off
  Vercel the code does otherwise: \<^verbatim>\<open>initializeFiles\<close> creates the five files under
  \<^verbatim>\<open>__dirname/components/data\<close>, while the handlers read \<^verbatim>\<open>__dirname/gold.json\<close> and
  its siblings. Started in a directory with no data file, every list request is answered
  with status 500.
\<close>

theorem local_startup_then_list_fails:
  "get_records \<lparr>isVercel = False, dirname = dir\<rparr> c
       (initializeFiles \<lparr>isVercel = False, dirname = dir\<rparr> Map.empty)
     = Responds \<lparr>status = 500, body = error_json (readError c)\<rparr>
         (initializeFiles \<lparr>isVercel = False, dirname = dir\<rparr> Map.empty)
   \<and> get_dataset \<lparr>isVercel = False, dirname = dir\<rparr> d
       (initializeFiles \<lparr>isVercel = False, dirname = dir\<rparr> Map.empty)
     = Responds \<lparr>status = 500, body = error_json ''Error reading data''\<rparr>
         (initializeFiles \<lparr>isVercel = False, dirname = dir\<rparr> Map.empty)"
proof -
  let ?e = "\<lparr>isVercel = False, dirname = dir\<rparr>"
  have a: "initializeFiles ?e Map.empty (filePath ?e c) = None"
    using filePath_not_local [of ?e c] by (simp add: initializeFiles_def createMissing_other)
  have b: "initializeFiles ?e Map.empty (datasetPath ?e d) = None"
    using datasetPath_not_local [of ?e d] by (simp add: initializeFiles_def createMissing_other)
  show ?thesis
    using a b by (simp add: get_records_def get_dataset_def readJson_def)
qed

subsection \<open>Whole-document overwrite\<close>
























subsection \<open>Records: helper facts\<close>

lemma get_prop_not_null: "item \<noteq> JNull \<Longrightarrow> \<exists>v. get_prop item k = Inr v"
  by (cases item) simp_all

lemma fold_max_Max: "fold max xs (m::int) = Max (insert m (set xs))"
  using Max.set_eq_fold [of m xs] by simp

lemma reduce_maxId_numbered:
  "numbered k items \<Longrightarrow>
     reduce_maxId k items (Some (JNum m)) = Inr (Some (JNum (fold max (id_numbers k items) m)))"
proof (induction items arbitrary: m)
  case Nil
  then show ?case by simp
next
  case (Cons item items)
  from Cons.prems have rest: "numbered k items" and nn: "item \<noteq> JNull"
    by (simp_all add: numbered_def)
  obtain v where v: "get_prop item k = Inr v" using get_prop_not_null [OF nn] by blast
  show ?case
  proof (cases v)
    case None
    then show ?thesis using v Cons.IH [OF rest] by (simp add: js_gt_def)
  next
    case (Some j)
    with Cons.prems v obtain n where n: "j = JNum n"
      by (cases j) (auto simp: numbered_def)
    show ?thesis
      using v Some n Cons.IH [OF rest, of "max n m"] Cons.IH [OF rest, of m]
      by (auto simp: js_gt_def max_def)
  qed
qed

lemma post_record_numbered:
  assumes "collection_is e c fs items" and "numbered (idField c) items"
  shows "post_record e c reqBody fs
           = (case set_prop reqBody (idField c) (JNum (next_id (idField c) items)) of
                Inl err \<Rightarrow> Responds \<lparr>status = 500, body = error_json (saveError c)\<rparr> fs
              | Inr newRecord \<Rightarrow>
                  Responds \<lparr>status = 201, body = newRecord\<rparr>
                    (writeJson fs (filePath e c) (JArr (items @ [newRecord]))))"
proof -
  have rd: "(if pathExists fs (filePath e c) then readJson fs (filePath e c) else Inr (JArr []))
              = Inr (JArr items)"
    using assms(1) by (auto simp: collection_is_def pathExists_def readJson_def)
  have mx: "reduce_maxId (idField c) items (Some (JNum 0))
              = Inr (Some (JNum (Max (insert 0 (set (id_numbers (idField c) items))))))"
    using reduce_maxId_numbered [OF assms(2), of 0] by (simp add: fold_max_Max)
  show ?thesis
    unfolding post_record_def Let_def rd
    by (cases reqBody) (simp_all add: mx js_add_one_def next_id_def add.commute)
qed

lemma id_numbers_append: "id_numbers k (xs @ ys) = id_numbers k xs @ id_numbers k ys"
  by (induction xs) (auto split: sum.splits option.splits json.splits)

lemma ids_of_append: "ids_of k (xs @ ys) = ids_of k xs @ ids_of k ys"
  by (induction xs) (auto split: sum.splits option.splits)

lemma numbered_append: "numbered k (xs @ ys) = (numbered k xs \<and> numbered k ys)"
  by (auto simp: numbered_def)

lemma numbered_stamped: "numbered k [JObj (AList.update k (JNum n) kvs)]"
  by (simp add: numbered_def update_conv)

lemma next_id_stamped:
  "next_id k (items @ [JObj (AList.update k (JNum (next_id k items)) kvs)]) = next_id k items + 1"
proof -
  let ?S = "insert 0 (set (id_numbers k items))"
  have "Max (insert (1 + Max ?S) ?S) = 1 + Max ?S"
    by (intro Max_eqI) (auto simp: add.commute add_increasing Max_ge)
  then show ?thesis
    by (simp add: next_id_def id_numbers_append update_conv insert_commute)
qed

lemma creates_from:
  assumes "collection_is e c fs items" and "numbered (idField c) items"
  shows "\<exists>tr. run e c (map (\<lambda>kvs. Create (JObj kvs)) objs) fs = Some tr
           \<and> map fst tr
             = map (\<lambda>(i, kvs). \<lparr>status = 201,
                       body = JObj (AList.update (idField c)
                                (JNum (next_id (idField c) items + int i)) kvs)\<rparr>)
                 (enumerate 0 objs)"
  using assms
proof (induction objs arbitrary: fs items)
  case Nil
  then show ?case by simp
next
  case (Cons kvs objs)
  let ?k = "idField c"
  let ?new = "JObj (AList.update ?k (JNum (next_id ?k items)) kvs)"
  let ?fs = "writeJson fs (filePath e c) (JArr (items @ [?new]))"
  have first: "post_record e c (JObj kvs) fs = Responds \<lparr>status = 201, body = ?new\<rparr> ?fs"
    using post_record_numbered [OF Cons.prems] by simp
  have c': "collection_is e c ?fs (items @ [?new])"
    by (simp add: collection_is_def writeJson_def)
  have n': "numbered ?k (items @ [?new])"
    using Cons.prems(2) by (simp add: numbered_append numbered_stamped)
  obtain tr where tr: "run e c (map (\<lambda>kvs. Create (JObj kvs)) objs) ?fs = Some tr"
    and rs: "map fst tr
             = map (\<lambda>(i, kvs). \<lparr>status = 201,
                       body = JObj (AList.update ?k (JNum (next_id ?k (items @ [?new]) + int i)) kvs)\<rparr>)
                 (enumerate 0 objs)"
    using Cons.IH [OF c' n'] by blast
  have shift: "map (\<lambda>(i, kvs). \<lparr>status = 201,
                       body = JObj (AList.update ?k (JNum (next_id ?k (items @ [?new]) + int i)) kvs)\<rparr>)
                 (enumerate 0 objs)
             = map (\<lambda>(i, kvs). \<lparr>status = 201,
                       body = JObj (AList.update ?k (JNum (next_id ?k items + int i)) kvs)\<rparr>)
                 (enumerate (Suc 0) objs)"
    by (simp add: enumerate_Suc_eq [of 0] next_id_stamped split_def add.assoc)
  show ?case
    using first tr rs shift by simp
qed

lemma strict_eq_num_iff: "strict_eq_num v i = (\<exists>n. v = Some (JNum n) \<and> i = Some (Finite n))"
  by (cases "(v, i)" rule: strict_eq_num.cases) auto

lemma in_ids_of: "v \<in> set (ids_of k items) = (\<exists>item \<in> set items. get_prop item k = Inr (Some v))"
  by (induction items) (auto split: sum.splits option.splits)

lemma in_id_numbers:
  "n \<in> set (id_numbers k items) = (\<exists>item \<in> set items. get_prop item k = Inr (Some (JNum n)))"
  by (induction items) (auto split: sum.splits option.splits json.splits)

lemma findIndex_result:
  assumes "JNull \<notin> set items"
  shows "(findIndex k i items = Inr None
            \<and> (\<forall>n. i = Some (Finite n) \<longrightarrow> JNum n \<notin> set (ids_of k items)))
       \<or> (\<exists>j n. findIndex k i items = Inr (Some j) \<and> i = Some (Finite n) \<and> j < length items
            \<and> get_prop (items ! j) k = Inr (Some (JNum n))
            \<and> (\<forall>j'<j. get_prop (items ! j') k \<noteq> Inr (Some (JNum n))))"
  using assms
proof (induction items)
  case Nil
  then show ?case by simp
next
  case (Cons item items)
  then have nn: "item \<noteq> JNull" and rest: "JNull \<notin> set items" by auto
  obtain v where v: "get_prop item k = Inr v" using get_prop_not_null [OF nn] by blast
  show ?case
  proof (cases "strict_eq_num v i")
    case True
    then obtain n where "v = Some (JNum n)" "i = Some (Finite n)" by (auto simp: strict_eq_num_iff)
    then show ?thesis using v by simp
  next
    case False
    from Cons.IH [OF rest] show ?thesis
    proof (elim disjE conjE exE)
      assume a: "findIndex k i items = Inr None"
        and b: "\<forall>n. i = Some (Finite n) \<longrightarrow> JNum n \<notin> set (ids_of k items)"
      have "findIndex k i (item # items) = Inr None" using v False a by simp
      moreover have "\<forall>n. i = Some (Finite n) \<longrightarrow> JNum n \<notin> set (ids_of k (item # items))"
        using v False b by (auto simp: strict_eq_num_iff split: option.splits)
      ultimately show ?thesis by blast
    next
      fix j n
      assume a: "findIndex k i items = Inr (Some j)" and i: "i = Some (Finite n)" and j: "j < length items"
        and g: "get_prop (items ! j) k = Inr (Some (JNum n))"
        and m: "\<forall>j'<j. get_prop (items ! j') k \<noteq> Inr (Some (JNum n))"
      have "findIndex k i (item # items) = Inr (Some (Suc j))" using v False a by simp
      moreover have "get_prop ((item # items) ! Suc j) k = Inr (Some (JNum n))" using g by simp
      moreover have "\<forall>j'<Suc j. get_prop ((item # items) ! j') k \<noteq> Inr (Some (JNum n))"
      proof (intro allI impI)
        fix j' assume "j' < Suc j"
        then show "get_prop ((item # items) ! j') k \<noteq> Inr (Some (JNum n))"
          using m v False i by (cases j') (auto simp: strict_eq_num_iff)
      qed
      ultimately show ?thesis using i j by auto
    qed
  qed
qed


lemma put_record_not_found:
  assumes "fs (filePath e c) = Some (Json (JArr items))"
    and "findIndex (idField c) (parseInt p) items = Inr None"
  shows "put_record e c p reqBody fs
           = Responds \<lparr>status = 404, body = error_json (notFound c)\<rparr> fs"
  using assms by (simp add: put_record_def readJson_def)

lemma delete_record_not_found:
  assumes "fs (filePath e c) = Some (Json (JArr items))"
    and "findIndex (idField c) (parseInt p) items = Inr None"
  shows "delete_record e c p fs
           = Responds \<lparr>status = 404, body = error_json (notFound c)\<rparr> fs"
  using assms by (simp add: delete_record_def readJson_def)

lemma put_record_found:
  assumes "fs (filePath e c) = Some (Json (JArr items))"
    and "findIndex (idField c) (parseInt p) items = Inr (Some j)"
    and "parseInt p = Some (Finite n)"
  shows "put_record e c p reqBody fs
           = (case set_prop reqBody (idField c) (JNum n) of
                Inl err \<Rightarrow> Responds \<lparr>status = 500, body = error_json (updateError c)\<rparr> fs
              | Inr updatedRecord \<Rightarrow>
                  Responds \<lparr>status = 200, body = updatedRecord\<rparr>
                    (writeJson fs (filePath e c) (JArr (items[j := updatedRecord]))))"
  using assms by (cases reqBody) (simp_all add: put_record_def readJson_def)

lemma delete_record_found:
  assumes "fs (filePath e c) = Some (Json (JArr items))"
    and "findIndex (idField c) (parseInt p) items = Inr (Some j)"
  shows "delete_record e c p fs
           = Responds \<lparr>status = 200, body = message_json (deleted c)\<rparr>
               (writeJson fs (filePath e c) (JArr (take j items @ drop (Suc j) items)))"
  using assms by (simp add: delete_record_def readJson_def)

subsection \<open>Replace and delete by identifier\<close>



text \<open>
  The parameter is read as \<^verbatim>\<open>parseInt\<close> reads it: \<^verbatim>\<open>/api/gold/9007199254740993\<close>
  names the record whose id is 9007199254740992, and deletes it.
\<close>

lemma delete_by_rounded_parameter:
  "parseInt ''9007199254740993'' = Some (Finite 9007199254740992)
   \<and> delete_record \<lparr>isVercel = True, dirname = [''srv'']\<rparr> Gold ''9007199254740993''
        [[''tmp'', ''gold.json''] \<mapsto> Json (JArr [JObj [(''id'', JNum 9007199254740992)]])]
      = Responds \<lparr>status = 200, body = message_json ''Record deleted successfully''\<rparr>
          [[''tmp'', ''gold.json''] \<mapsto> Json (JArr [])]"
proof -
  have p: "parseInt ''9007199254740993'' = Some (Finite 9007199254740992)"
    by (simp add: parseInt_eval)
  show ?thesis
    by (simp add: p delete_record_def readJson_def writeJson_def dataFilePath_def baseDir_def)
qed




text \<open>
  C4, for a request body that is a JSON object: when a record of the collection has the parsed
  path parameter \<open>n\<close> as its identifying field, replace-by-id answers 200 with the body
  whose identifying field is set to \<open>n\<close> (whatever the body held there), and the first
  such record is replaced in the file by that same stamped body.
\<close>

theorem replace_restamps_identifier:
  assumes "fs (filePath e c) = Some (Json (JArr items))"
    and "JNull \<notin> set items"
    and "parseInt p = Some (Finite n)"
    and "JNum n \<in> set (ids_of (idField c) items)"
  shows "\<exists>j<length items.
           get_prop (items ! j) (idField c) = Inr (Some (JNum n))
         \<and> (\<forall>j'<j. get_prop (items ! j') (idField c) \<noteq> Inr (Some (JNum n)))
         \<and> put_record e c p (JObj kvs) fs
             = Responds \<lparr>status = 200, body = JObj (AList.update (idField c) (JNum n) kvs)\<rparr>
                 (writeJson fs (filePath e c)
                    (JArr (items[j := JObj (AList.update (idField c) (JNum n) kvs)])))
         \<and> get_prop (JObj (AList.update (idField c) (JNum n) kvs)) (idField c)
             = Inr (Some (JNum n))"
proof -
  from findIndex_result [OF assms(2), of "idField c" "parseInt p"] assms(3,4)
  obtain j where j: "findIndex (idField c) (parseInt p) items = Inr (Some j)"
    and lt: "j < length items"
    and g: "get_prop (items ! j) (idField c) = Inr (Some (JNum n))"
    and m: "\<forall>j'<j. get_prop (items ! j') (idField c) \<noteq> Inr (Some (JNum n))"
    by auto
  show ?thesis
    using put_record_found [where fs = fs and e = e and c = c and reqBody = "JObj kvs",
        OF assms(1) j assms(3)] lt g m
    by (auto simp: update_conv)
qed

text \<open>The theorem at \<^verbatim>\<open>PUT /api/crops/2\<close> with a body that carries \<^verbatim>\<open>crop_code: 9\<close>.\<close>

theorem replace_restamps_identifier_witness:
  "parseInt ''2'' = Some (Finite 2)
   \<and> JNum 2 \<in> set (ids_of (idField Crops) [JObj [(''crop_code'', JNum 1)], JObj [(''crop_code'', JNum 2)]])
   \<and> put_record \<lparr>isVercel = True, dirname = [''srv'']\<rparr> Crops ''2''
      (JObj [(''crop_code'', JNum 9), (''name'', JStr ''rice'')])
      [[''tmp'', ''crops.json''] \<mapsto> Json (JArr [JObj [(''crop_code'', JNum 1)], JObj [(''crop_code'', JNum 2)]])]
     = Responds \<lparr>status = 200, body = JObj [(''crop_code'', JNum 2), (''name'', JStr ''rice'')]\<rparr>
         [[''tmp'', ''crops.json''] \<mapsto> Json (JArr [JObj [(''crop_code'', JNum 1)],
              JObj [(''crop_code'', JNum 2), (''name'', JStr ''rice'')]])]"
proof -
  let ?items = "[JObj [(''crop_code'', JNum 1)], JObj [(''crop_code'', JNum 2)]]"
  let ?fs = "[[''tmp'', ''crops.json''] \<mapsto> Json (JArr ?items)]"
  let ?e = "\<lparr>isVercel = True, dirname = [''srv'']\<rparr>"
  let ?kvs = "[(''crop_code'', JNum 9), (''name'', JStr ''rice'')]"
  have a: "?fs (filePath ?e Crops) = Some (Json (JArr ?items))"
    by (simp add: cropsFilePath_def baseDir_def)
  have b: "JNull \<notin> set ?items" by simp
  have c: "parseInt ''2'' = Some (Finite 2)"
    by (simp add: parseInt_eval)
  have d: "JNum 2 \<in> set (ids_of (idField Crops) ?items)" by simp
  obtain j where lt: "j < length ?items"
    and g: "get_prop (?items ! j) (idField Crops) = Inr (Some (JNum 2))"
    and r: "put_record ?e Crops ''2'' (JObj ?kvs) ?fs
             = Responds \<lparr>status = 200, body = JObj (AList.update (idField Crops) (JNum 2) ?kvs)\<rparr>
                 (writeJson ?fs (filePath ?e Crops)
                    (JArr (?items[j := JObj (AList.update (idField Crops) (JNum 2) ?kvs)])))"
    using replace_restamps_identifier [where fs = ?fs and e = ?e and c = Crops and kvs = ?kvs,
        OF a b c d]
    by blast
  have "j = 0 \<or> j = 1" using lt by auto
  then have "j = 1" using g by auto
  then show ?thesis
    using r c d by (simp add: writeJson_def cropsFilePath_def baseDir_def)
qed

text \<open>
  C4 as stated (every request body) fails: for the body \<^verbatim>\<open>[]\<close> the assignment
  \<^verbatim>\<open>updatedRecord.id = id\<close> sets a property of an array that JSON does not carry; the
  response is \<^verbatim>\<open>[]\<close>, with no identifying field, and so is the stored record.
\<close>

theorem replace_array_body_counterexample:
  "put_record \<lparr>isVercel = True, dirname = [''srv'']\<rparr> Gold ''1'' (JArr [])
      [[''tmp'', ''gold.json''] \<mapsto> Json (JArr [JObj [(''id'', JNum 1)]])]
     = Responds \<lparr>status = 200, body = JArr []\<rparr>
         [[''tmp'', ''gold.json''] \<mapsto> Json (JArr [JArr []])]
   \<and> get_prop (JArr []) (idField Gold) = Inr None"
  by (simp add: put_record_def readJson_def writeJson_def dataFilePath_def baseDir_def
      parseInt_eval)

subsection \<open>Creating records\<close>

text \<open>
  C1, for request bodies that are JSON objects: started on an empty collection (the file holds
  \<^verbatim>\<open>[]\<close> or does not exist), a sequence of creates is answered, the \<open>i\<close>-th (from 0)
  with status 201 and the body stamped with the identifying field \<open>i + 1\<close>. The
  identifier a create assigns is one more than the largest number among the identifying
  fields of the records present, that largest being 0 when there is none.
\<close>

theorem creates_are_numbered:
  assumes "collection_is e c fs []"
  shows "(\<exists>tr. run e c (map (\<lambda>kvs. Create (JObj kvs)) objs) fs = Some tr
            \<and> length tr = length objs
            \<and> (\<forall>i<length objs.
                  fst (tr ! i)
                    = \<lparr>status = 201,
                       body = JObj (AList.update (idField c) (JNum (int i + 1)) (objs ! i))\<rparr>
                  \<and> get_prop (body (fst (tr ! i))) (idField c) = Inr (Some (JNum (int i + 1)))))
       \<and> (\<forall>items fs' kvs.
             collection_is e c fs' items \<and> numbered (idField c) items \<longrightarrow>
               response_of (post_record e c (JObj kvs) fs')
                 = Some \<lparr>status = 201,
                         body = JObj (AList.update (idField c)
                                  (JNum (1 + Max (insert 0 (set (id_numbers (idField c) items))))) kvs)\<rparr>)"
proof -
  let ?k = "idField c"
  let ?f = "\<lambda>(i, kvs). \<lparr>status = 201, body = JObj (AList.update ?k (JNum (next_id ?k [] + int i)) kvs)\<rparr>"
  obtain tr where tr: "run e c (map (\<lambda>kvs. Create (JObj kvs)) objs) fs = Some tr"
    and rs: "map fst tr = map ?f (enumerate 0 objs)"
    using creates_from [OF assms, of objs] by (auto simp: numbered_def)
  have len: "length tr = length objs"
    using arg_cong [OF rs, of length] by simp
  have each: "fst (tr ! i)
                = \<lparr>status = 201, body = JObj (AList.update ?k (JNum (int i + 1)) (objs ! i))\<rparr>"
    if "i < length objs" for i
  proof -
    have "fst (tr ! i) = map fst tr ! i" using that len by simp
    also have "\<dots> = ?f (enumerate 0 objs ! i)" using that by (simp add: rs)
    also have "\<dots> = \<lparr>status = 201, body = JObj (AList.update ?k (JNum (int i + 1)) (objs ! i))\<rparr>"
      using that by (simp add: nth_enumerate_eq next_id_def add.commute)
    finally show ?thesis .
  qed
  have one: "response_of (post_record e c (JObj kvs) fs')
               = Some \<lparr>status = 201,
                       body = JObj (AList.update ?k
                                (JNum (1 + Max (insert 0 (set (id_numbers ?k items))))) kvs)\<rparr>"
    if "collection_is e c fs' items" and "numbered ?k items" for items fs' kvs
    using post_record_numbered [OF that] by (simp add: next_id_def)
  show ?thesis
    using tr len each one by (simp add: update_conv)
qed

text \<open>The theorem at the two creates \<^verbatim>\<open>{amount:5}\<close> and \<^verbatim>\<open>{amount:7}\<close> on an absent file.\<close>

theorem creates_are_numbered_witness:
  "map_option (map fst)
     (run \<lparr>isVercel = True, dirname = [''srv'']\<rparr> Gold
        [Create (JObj [(''amount'', JNum 5)]), Create (JObj [(''amount'', JNum 7)])] Map.empty)
   = Some [\<lparr>status = 201, body = JObj [(''amount'', JNum 5), (''id'', JNum 1)]\<rparr>,
           \<lparr>status = 201, body = JObj [(''amount'', JNum 7), (''id'', JNum 2)]\<rparr>]"
proof -
  have start: "collection_is \<lparr>isVercel = True, dirname = [''srv'']\<rparr> Gold Map.empty []"
    by (simp add: collection_is_def)
  obtain tr where tr: "run \<lparr>isVercel = True, dirname = [''srv'']\<rparr> Gold
        (map (\<lambda>kvs. Create (JObj kvs)) [[(''amount'', JNum 5)], [(''amount'', JNum 7)]]) Map.empty
        = Some tr"
    and len: "length tr = 2"
    and each: "\<forall>i<2. fst (tr ! i)
                    = \<lparr>status = 201,
                       body = JObj (AList.update (idField Gold) (JNum (int i + 1))
                                ([[(''amount'', JNum 5)], [(''amount'', JNum 7)]] ! i))\<rparr>"
    using creates_are_numbered [OF start, of "[[(''amount'', JNum 5)], [(''amount'', JNum 7)]]"]
    by auto
  have "map fst tr = [fst (tr ! 0), fst (tr ! 1)]"
    using len by (intro nth_equalityI) (auto simp: less_Suc_eq numeral_2_eq_2)
  also have "\<dots> = [\<lparr>status = 201, body = JObj [(''amount'', JNum 5), (''id'', JNum 1)]\<rparr>,
           \<lparr>status = 201, body = JObj [(''amount'', JNum 7), (''id'', JNum 2)]\<rparr>]"
    using each by (simp add: numeral_2_eq_2)
  finally show ?thesis using tr by simp
qed

text \<open>
  C1 as stated (every sequence of creates) fails: the body \<^verbatim>\<open>[]\<close> is stored and
  returned with status 201, and the returned record has no identifying field; the record
  created second, from the body \<^verbatim>\<open>{}\<close>, is then returned with the identifier 1.
\<close>

theorem create_array_body_counterexample:
  "map_option (map fst)
     (run \<lparr>isVercel = True, dirname = [''srv'']\<rparr> Gold
        [Create (JArr []), Create (JObj [])] Map.empty)
     = Some [\<lparr>status = 201, body = JArr []\<rparr>,
             \<lparr>status = 201, body = JObj [(''id'', JNum 1)]\<rparr>]
   \<and> get_prop (JArr []) (idField Gold) = Inr None"
  by (simp add: post_record_def pathExists_def readJson_def writeJson_def dataFilePath_def
      baseDir_def js_gt_def js_add_one_def)

subsection \<open>The identifiers of a collection stay distinct\<close>

lemma sound_iff:
  "sound e c fs
     = (\<exists>items. collection_is e c fs items \<and> numbered (idField c) items
          \<and> distinct (ids_of (idField c) items))"
  by (auto simp: sound_def collection_is_def numbered_def
      split: option.splits fcontent.splits json.splits)

lemma next_id_fresh: "JNum (next_id k items) \<notin> set (ids_of k items)"
proof
  assume "JNum (next_id k items) \<in> set (ids_of k items)"
  then have "next_id k items \<in> set (id_numbers k items)"
    by (simp add: in_ids_of in_id_numbers)
  then have "next_id k items \<le> Max (insert 0 (set (id_numbers k items)))"
    by (intro Max_ge) auto
  then show False by (simp add: next_id_def)
qed

lemma set_prop_result:
  assumes "set_prop b k v = Inr b'"
  shows "b' \<noteq> JNull \<and> (ids_of k [b'] = [v] \<or> ids_of k [b'] = [])"
  using assms by (cases b) (auto simp: update_conv)

lemma numbered_single:
  "b' \<noteq> JNull \<Longrightarrow> ids_of k [b'] = [JNum n] \<or> ids_of k [b'] = [] \<Longrightarrow> numbered k [b']"
  by (auto simp: numbered_def split: sum.splits option.splits json.splits)

lemma numbered_no_null: "numbered k items \<Longrightarrow> JNull \<notin> set items"
  by (auto simp: numbered_def)

lemma numbered_subset: "numbered k items \<Longrightarrow> set items' \<subseteq> set items \<Longrightarrow> numbered k items'"
  by (auto simp: numbered_def)

lemma ids_of_update:
  "j < length items \<Longrightarrow>
     ids_of k (items[j := x])
       = ids_of k (take j items) @ ids_of k [x] @ ids_of k (drop (Suc j) items)"
  by (simp add: upd_conv_take_nth_drop ids_of_append [symmetric] del: ids_of.simps)

lemma ids_of_split:
  "j < length items \<Longrightarrow>
     ids_of k items
       = ids_of k (take j items) @ ids_of k [items ! j] @ ids_of k (drop (Suc j) items)"
  using id_take_nth_drop [of j items]
  by (metis append_Cons append_Nil ids_of_append)

lemma sound_create:
  assumes "sound e c fs"
  shows "\<exists>r fs'. post_record e c reqBody fs = Responds r fs' \<and> sound e c fs'"
proof -
  let ?k = "idField c"
  from assms obtain items where ci: "collection_is e c fs items" and nu: "numbered ?k items"
    and di: "distinct (ids_of ?k items)"
    by (auto simp: sound_iff)
  note post = post_record_numbered [OF ci nu, of reqBody]
  show ?thesis
  proof (cases "set_prop reqBody ?k (JNum (next_id ?k items))")
    case (Inl err)
    then show ?thesis using post assms by simp
  next
    case (Inr b')
    let ?fs = "writeJson fs (filePath e c) (JArr (items @ [b']))"
    from set_prop_result [OF Inr]
    have nn: "b' \<noteq> JNull"
      and ids: "ids_of ?k [b'] = [JNum (next_id ?k items)] \<or> ids_of ?k [b'] = []"
      by auto
    have "collection_is e c ?fs (items @ [b'])"
      by (simp add: collection_is_def writeJson_def)
    moreover have "numbered ?k (items @ [b'])"
      using nu numbered_single [OF nn ids] by (simp add: numbered_append)
    moreover have "distinct (ids_of ?k (items @ [b']))"
      using di ids next_id_fresh [of ?k items] by (auto simp: ids_of_append simp del: ids_of.simps)
    ultimately have "sound e c ?fs" unfolding sound_iff by blast
    then show ?thesis using post Inr by simp
  qed
qed

lemma sound_replace:
  assumes "sound e c fs"
  shows "\<exists>r fs'. put_record e c p reqBody fs = Responds r fs' \<and> sound e c fs'"
proof -
  let ?k = "idField c"
  from assms obtain items where ci: "collection_is e c fs items" and nu: "numbered ?k items"
    and di: "distinct (ids_of ?k items)"
    by (auto simp: sound_iff)
  show ?thesis
  proof (cases "fs (filePath e c)")
    case None
    then have "put_record e c p reqBody fs
                 = Responds \<lparr>status = 500, body = error_json (updateError c)\<rparr> fs"
      by (simp add: put_record_def readJson_def)
    then show ?thesis using assms by simp
  next
    case (Some content)
    then have h: "fs (filePath e c) = Some (Json (JArr items))"
      using ci by (auto simp: collection_is_def)
    from findIndex_result [OF numbered_no_null [OF nu], of ?k "parseInt p"]
    show ?thesis
    proof (elim disjE conjE exE)
      assume "findIndex ?k (parseInt p) items = Inr None"
      then show ?thesis
        using put_record_not_found [where fs = fs and e = e and c = c, OF h] assms by simp
    next
      fix j n
      assume f: "findIndex ?k (parseInt p) items = Inr (Some j)" and pn: "parseInt p = Some (Finite n)"
        and lt: "j < length items" and g: "get_prop (items ! j) ?k = Inr (Some (JNum n))"
      note put = put_record_found [where fs = fs and e = e and c = c and reqBody = reqBody,
          OF h f pn]
      show ?thesis
      proof (cases "set_prop reqBody ?k (JNum n)")
        case (Inl err)
        then show ?thesis using put assms by simp
      next
        case (Inr b')
        let ?fs = "writeJson fs (filePath e c) (JArr (items[j := b']))"
        from set_prop_result [OF Inr]
        have nn: "b' \<noteq> JNull" and ids: "ids_of ?k [b'] = [JNum n] \<or> ids_of ?k [b'] = []"
          by auto
        have old: "ids_of ?k [items ! j] = [JNum n]" using g by simp
        have "collection_is e c ?fs (items[j := b'])"
          by (simp add: collection_is_def writeJson_def)
        moreover have "numbered ?k (items[j := b'])"
          using nu numbered_single [OF nn ids] set_update_subset_insert [of items j b']
          by (auto simp: numbered_def)
        moreover have "distinct (ids_of ?k (items[j := b']))"
          using di ids old unfolding ids_of_update [OF lt] ids_of_split [OF lt, of ?k]
          by auto
        ultimately have "sound e c ?fs" unfolding sound_iff by blast
        then show ?thesis using put Inr by simp
      qed
    qed
  qed
qed

lemma sound_delete:
  assumes "sound e c fs"
  shows "\<exists>r fs'. delete_record e c p fs = Responds r fs' \<and> sound e c fs'"
proof -
  let ?k = "idField c"
  from assms obtain items where ci: "collection_is e c fs items" and nu: "numbered ?k items"
    and di: "distinct (ids_of ?k items)"
    by (auto simp: sound_iff)
  show ?thesis
  proof (cases "fs (filePath e c)")
    case None
    then have "delete_record e c p fs
                 = Responds \<lparr>status = 500, body = error_json (deleteError c)\<rparr> fs"
      by (simp add: delete_record_def readJson_def)
    then show ?thesis using assms by simp
  next
    case (Some content)
    then have h: "fs (filePath e c) = Some (Json (JArr items))"
      using ci by (auto simp: collection_is_def)
    from findIndex_result [OF numbered_no_null [OF nu], of ?k "parseInt p"]
    show ?thesis
    proof (elim disjE conjE exE)
      assume "findIndex ?k (parseInt p) items = Inr None"
      then show ?thesis
        using delete_record_not_found [where fs = fs and e = e and c = c, OF h] assms by simp
    next
      fix j n
      assume f: "findIndex ?k (parseInt p) items = Inr (Some j)" and lt: "j < length items"
      let ?items = "take j items @ drop (Suc j) items"
      let ?fs = "writeJson fs (filePath e c) (JArr ?items)"
      have "collection_is e c ?fs ?items"
        by (simp add: collection_is_def writeJson_def)
      moreover have "numbered ?k ?items"
        using nu set_take_subset [of j items] set_drop_subset [of "Suc j" items]
        by (intro numbered_subset [OF nu]) auto
      moreover have "distinct (ids_of ?k ?items)"
        using di unfolding ids_of_split [OF lt, of ?k] ids_of_append by auto
      ultimately have "sound e c ?fs" unfolding sound_iff by blast
      then show ?thesis
        using delete_record_found [where fs = fs and e = e and c = c, OF h f] by simp
    qed
  qed
qed

lemma sound_step:
  "sound e c fs \<Longrightarrow> \<exists>r fs'. step e c x fs = Responds r fs' \<and> sound e c fs'"
  by (cases x) (simp_all add: sound_create sound_replace sound_delete)

lemma sound_run:
  "sound e c fs \<Longrightarrow>
     \<exists>tr. run e c ops fs = Some tr \<and> length tr = length ops \<and> (\<forall>x \<in> set tr. sound e c (snd x))"
proof (induction ops arbitrary: fs)
  case Nil
  then show ?case by simp
next
  case (Cons x ops)
  from sound_step [OF Cons.prems, of x]
  obtain r fs' where s: "step e c x fs = Responds r fs'" and i: "sound e c fs'" by blast
  from Cons.IH [OF i]
  obtain tr where "run e c ops fs' = Some tr" "length tr = length ops"
    "\<forall>x \<in> set tr. sound e c (snd x)" by blast
  then show ?case using s i by simp
qed

lemma sound_distinct: "sound e c fs \<Longrightarrow> distinct (ids_of (idField c) (records_in e c fs))"
  by (auto simp: sound_def records_in_def split: option.splits fcontent.splits json.splits)

text \<open>
  C3: started on an empty collection, every sequence of creates, replacements and deletions
  (with any bodies and any path parameters) is answered request by request, and after each
  request the identifying-field values of the records in the collection's file are pairwise
  distinct. A record stored from an array body has no identifying field and contributes no
  value.
\<close>

theorem identifiers_stay_distinct:
  assumes "collection_is e c fs []"
  shows "\<exists>tr. run e c ops fs = Some tr \<and> length tr = length ops
           \<and> (\<forall>x \<in> set tr. distinct (ids_of (idField c) (records_in e c (snd x))))"
proof -
  have "sound e c fs"
    unfolding sound_iff using assms by (intro exI [of _ "[]"]) (simp add: numbered_def)
  from sound_run [OF this, of ops] show ?thesis
    using sound_distinct by blast
qed

text \<open>The theorem at a run of six requests, with the identifiers in the file after each.\<close>

theorem identifiers_stay_distinct_witness:
  "map_option (map (\<lambda>x. ids_of (idField Gold)
        (records_in \<lparr>isVercel = True, dirname = [''srv'']\<rparr> Gold (snd x))))
     (run \<lparr>isVercel = True, dirname = [''srv'']\<rparr> Gold
        [Create (JObj []), Create (JObj [(''id'', JNum 1)]), Delete ''1'', Create (JArr []),
         Replace ''2'' (JObj [(''id'', JNum 3)]), Create (JObj [])] Map.empty)
     = Some [[JNum 1], [JNum 1, JNum 2], [JNum 2], [JNum 2], [JNum 2], [JNum 2, JNum 3]]
   \<and> (\<exists>tr. run \<lparr>isVercel = True, dirname = [''srv'']\<rparr> Gold
        [Create (JObj []), Create (JObj [(''id'', JNum 1)]), Delete ''1'', Create (JArr []),
         Replace ''2'' (JObj [(''id'', JNum 3)]), Create (JObj [])] Map.empty = Some tr
      \<and> (\<forall>x \<in> set tr. distinct (ids_of (idField Gold)
            (records_in \<lparr>isVercel = True, dirname = [''srv'']\<rparr> Gold (snd x)))))"
proof -
  have start: "collection_is \<lparr>isVercel = True, dirname = [''srv'']\<rparr> Gold Map.empty []"
    by (simp add: collection_is_def)
  have two: "parseInt ''2'' = Some (Finite 2)" and one: "parseInt ''1'' = Some (Finite 1)"
    by (simp_all add: parseInt_eval)
  have "map_option (map (\<lambda>x. ids_of (idField Gold)
        (records_in \<lparr>isVercel = True, dirname = [''srv'']\<rparr> Gold (snd x))))
     (run \<lparr>isVercel = True, dirname = [''srv'']\<rparr> Gold
        [Create (JObj []), Create (JObj [(''id'', JNum 1)]), Delete ''1'', Create (JArr []),
         Replace ''2'' (JObj [(''id'', JNum 3)]), Create (JObj [])] Map.empty)
     = Some [[JNum 1], [JNum 1, JNum 2], [JNum 2], [JNum 2], [JNum 2], [JNum 2, JNum 3]]"
    by (simp add: post_record_def put_record_def delete_record_def pathExists_def readJson_def
        writeJson_def dataFilePath_def baseDir_def js_gt_def js_add_one_def records_in_def
        one two)
  then show ?thesis
    using identifiers_stay_distinct [where fs = Map.empty and c = Gold
        and e = "\<lparr>isVercel = True, dirname = [''srv'']\<rparr>", OF start,
        of "[Create (JObj []), Create (JObj [(''id'', JNum 1)]), Delete ''1'', Create (JArr []),
         Replace ''2'' (JObj [(''id'', JNum 3)]), Create (JObj [])]"]
    by (auto simp del: run.simps)
qed

subsection \<open>Listing the profiles\<close>






subsection \<open>One profile, scoped to a loan type\<close>

text \<open>
  C8, as the code has it: no row with the identifier gives 404 on both routes; one row whose
  loan type is truthy (neither \<^verbatim>\<open>null\<close> nor empty) and is not the route's tag
  (\<^verbatim>\<open>KCC\<close>, \<^verbatim>\<open>KCCAH\<close>) gives the 400 rejection, whose body is the message and not the
  row.
\<close>

theorem fetch_profile_rejections:
  "(eq_u_en u rows = [] \<longrightarrow>
      user_data u rows = \<lparr>status = 404, body = message_json ''user not found''\<rparr>
      \<and> user_data_kccah u rows = \<lparr>status = 404, body = message_json ''user not found''\<rparr>)
   \<and> (eq_u_en u rows = [r] \<and> truthy (Some (loantype r)) \<and> loantype r \<noteq> JStr ''KCC'' \<longrightarrow>
      user_data u rows = \<lparr>status = 400, body = message_json ''this u_en NO IN KCC ''\<rparr>)
   \<and> (eq_u_en u rows = [r] \<and> truthy (Some (loantype r)) \<and> loantype r \<noteq> JStr ''KCCAH'' \<longrightarrow>
      user_data_kccah u rows = \<lparr>status = 400, body = message_json ''this u_en NO IN KCCAH ''\<rparr>)"
  by (simp add: user_data_def user_data_kccah_def fetch_profile_def)

text \<open>The theorem at an empty table and at rows tagged for the other route.\<close>

theorem fetch_profile_rejections_witness:
  "user_data ''7'' [] = \<lparr>status = 404, body = message_json ''user not found''\<rparr>
   \<and> user_data_kccah ''7'' [] = \<lparr>status = 404, body = message_json ''user not found''\<rparr>
   \<and> user_data_kccah ''42''
        [\<lparr>u_en = ''42'', peyar = JNull, aadhaar_en = JNull, userjson = JNull, loantype = JStr ''KCC''\<rparr>]
      = \<lparr>status = 400, body = message_json ''this u_en NO IN KCCAH ''\<rparr>
   \<and> user_data ''42''
        [\<lparr>u_en = ''42'', peyar = JNull, aadhaar_en = JNull, userjson = JNull, loantype = JStr ''KCCAH''\<rparr>]
      = \<lparr>status = 400, body = message_json ''this u_en NO IN KCC ''\<rparr>"
  using fetch_profile_rejections [of "''7''" "[]"]
    fetch_profile_rejections [of "''42''"
      "[\<lparr>u_en = ''42'', peyar = JNull, aadhaar_en = JNull, userjson = JNull, loantype = JStr ''KCC''\<rparr>]"
      "\<lparr>u_en = ''42'', peyar = JNull, aadhaar_en = JNull, userjson = JNull, loantype = JStr ''KCC''\<rparr>"]
    fetch_profile_rejections [of "''42''"
      "[\<lparr>u_en = ''42'', peyar = JNull, aadhaar_en = JNull, userjson = JNull, loantype = JStr ''KCCAH''\<rparr>]"
      "\<lparr>u_en = ''42'', peyar = JNull, aadhaar_en = JNull, userjson = JNull, loantype = JStr ''KCCAH''\<rparr>"]
  by (simp add: eq_u_en_def)

text \<open>
  C8 as stated fails: the row found has the empty string for loan type, which is not the tag
  \<^verbatim>\<open>KCCAH\<close>, and \<^verbatim>\<open>/api/user-data-kccah\<close> returns the row with status 200.
\<close>

theorem fetch_profile_empty_loantype_counterexample:
  "eq_u_en ''42''
     [\<lparr>u_en = ''42'', peyar = JNull, aadhaar_en = JNull, userjson = JNull, loantype = JStr []\<rparr>]
     = [\<lparr>u_en = ''42'', peyar = JNull, aadhaar_en = JNull, userjson = JNull, loantype = JStr []\<rparr>]
   \<and> JStr [] \<noteq> JStr ''KCCAH''
   \<and> user_data_kccah ''42''
     [\<lparr>u_en = ''42'', peyar = JNull, aadhaar_en = JNull, userjson = JNull, loantype = JStr []\<rparr>]
     = \<lparr>status = 200,
        body = row_json \<lparr>u_en = ''42'', peyar = JNull, aadhaar_en = JNull, userjson = JNull, loantype = JStr []\<rparr>\<rparr>"
  by (simp add: eq_u_en_def user_data_kccah_def fetch_profile_def)

text \<open>
  C10: when the one row with the identifier has a loan type that is not truthy (\<^verbatim>\<open>null\<close>,
  the empty string), both routes return the row with status 200.
\<close>

theorem falsy_loantype_is_returned:
  assumes "eq_u_en u rows = [r]" and "\<not> truthy (Some (loantype r))"
  shows "user_data u rows = \<lparr>status = 200, body = row_json r\<rparr>
       \<and> user_data_kccah u rows = \<lparr>status = 200, body = row_json r\<rparr>"
  using assms by (simp add: user_data_def user_data_kccah_def fetch_profile_def)

text \<open>The theorem at a row whose loan type is \<^verbatim>\<open>null\<close>.\<close>

theorem falsy_loantype_is_returned_witness:
  "user_data ''42''
     [\<lparr>u_en = ''42'', peyar = JStr ''A'', aadhaar_en = JNull, userjson = JNull, loantype = JNull\<rparr>]
     = \<lparr>status = 200,
        body = row_json \<lparr>u_en = ''42'', peyar = JStr ''A'', aadhaar_en = JNull, userjson = JNull, loantype = JNull\<rparr>\<rparr>
   \<and> user_data_kccah ''42''
     [\<lparr>u_en = ''42'', peyar = JStr ''A'', aadhaar_en = JNull, userjson = JNull, loantype = JNull\<rparr>]
     = \<lparr>status = 200,
        body = row_json \<lparr>u_en = ''42'', peyar = JStr ''A'', aadhaar_en = JNull, userjson = JNull, loantype = JNull\<rparr>\<rparr>"
  using falsy_loantype_is_returned [of "''42''"
      "[\<lparr>u_en = ''42'', peyar = JStr ''A'', aadhaar_en = JNull, userjson = JNull, loantype = JNull\<rparr>]"
      "\<lparr>u_en = ''42'', peyar = JStr ''A'', aadhaar_en = JNull, userjson = JNull, loantype = JNull\<rparr>"]
  by (simp add: eq_u_en_def)

subsection \<open>Submitting a profile\<close>

lemma update_keeps_identifiers: "map u_en (update_eq_u_en s rows) = map u_en rows"
  by (induction rows) (simp_all add: update_eq_u_en_def update_row_def)

text \<open>
  C9: with the update flag set and no row for the identifier, the response is 404 and the
  table is left as it was (nothing inserted, nothing updated). Whenever the flag is set the
  identifiers in the table stay the same, so no row is inserted; when it is not set, the new
  row is appended.
\<close>

theorem submit_update_of_absent_user:
  "(truthy (isUpdate s) \<and> eq_u_en (userId s) rows = [] \<longrightarrow>
      submit_user_data s rows
        = (\<lparr>status = 404, body = message_json ''User not found for update''\<rparr>, rows))
   \<and> (truthy (isUpdate s) \<longrightarrow>
        map u_en (snd (submit_user_data s rows)) = map u_en rows)
   \<and> (\<not> truthy (isUpdate s) \<longrightarrow>
        snd (submit_user_data s rows) = rows @ [new_row s])"
proof -
  have "truthy (isUpdate s) \<Longrightarrow> map u_en (snd (submit_user_data s rows)) = map u_en rows"
    by (cases "single (eq_u_en (userId s) rows)")
      (simp_all add: submit_user_data_def update_keeps_identifiers)
  then show ?thesis
    by (simp add: submit_user_data_def insert_row_def)
qed

text \<open>The theorem at an update of an absent identifier, and at the same submission without the flag.\<close>

theorem submit_update_of_absent_user_witness:
  "submit_user_data
     \<lparr>userId = ''44'', userName = Some (JStr ''N''), aadhaar = None, sent_userjson = None,
      sent_loantype = Some (JStr ''KCC''), isUpdate = Some (JBool True)\<rparr>
     [\<lparr>u_en = ''42'', peyar = JStr ''A'', aadhaar_en = JNull, userjson = JNull, loantype = JNull\<rparr>]
   = (\<lparr>status = 404, body = message_json ''User not found for update''\<rparr>,
      [\<lparr>u_en = ''42'', peyar = JStr ''A'', aadhaar_en = JNull, userjson = JNull, loantype = JNull\<rparr>])
   \<and> snd (submit_user_data
     \<lparr>userId = ''44'', userName = Some (JStr ''N''), aadhaar = None, sent_userjson = None,
      sent_loantype = Some (JStr ''KCC''), isUpdate = None\<rparr>
     [\<lparr>u_en = ''42'', peyar = JStr ''A'', aadhaar_en = JNull, userjson = JNull, loantype = JNull\<rparr>])
   = [\<lparr>u_en = ''42'', peyar = JStr ''A'', aadhaar_en = JNull, userjson = JNull, loantype = JNull\<rparr>,
      \<lparr>u_en = ''44'', peyar = JStr ''N'', aadhaar_en = JNull, userjson = JNull, loantype = JStr ''KCC''\<rparr>]"
  using submit_update_of_absent_user [of
     "\<lparr>userId = ''44'', userName = Some (JStr ''N''), aadhaar = None, sent_userjson = None,
      sent_loantype = Some (JStr ''KCC''), isUpdate = Some (JBool True)\<rparr>"
     "[\<lparr>u_en = ''42'', peyar = JStr ''A'', aadhaar_en = JNull, userjson = JNull, loantype = JNull\<rparr>]"]
   submit_update_of_absent_user [of
     "\<lparr>userId = ''44'', userName = Some (JStr ''N''), aadhaar = None, sent_userjson = None,
      sent_loantype = Some (JStr ''KCC''), isUpdate = None\<rparr>"
     "[\<lparr>u_en = ''42'', peyar = JStr ''A'', aadhaar_en = JNull, userjson = JNull, loantype = JNull\<rparr>]"]
  by (simp add: eq_u_en_def new_row_def)

end
